theory Spec2Isabelle
  imports Main "HOL-Library.Sublist"
begin

section \<open>JSON values and the library decoder\<close>

text \<open>
  The wire format. A \<^verbatim>\<open>json.RawMessage\<close> handed to an \<^verbatim>\<open>UnmarshalJSON\<close> method is
  either of length zero or the encoding of one JSON value, so raw bytes are modelled as
  \<open>json option\<close>: \<open>None\<close> is the empty byte slice, \<open>Some j\<close> the encoding of \<open>j\<close>.
  Go strings are byte sequences, and so is \<open>string\<close>.
\<close>

datatype json =
    JNull
  | JBool bool
  | JNumber int
  | JString string
  | JArray "json list"
  | JObject "(string \<times> json) list"

type_synonym RawMessage = "json option"

text \<open>Values of Go's \<^verbatim>\<open>error\<close> interface that the decoders return.\<close>

datatype error =
    SyntaxError
  | UnmarshalTypeError
  | errors_New string

text \<open>
  \<^verbatim>\<open>json.Unmarshal(data, &x)\<close> with \<^verbatim>\<open>var x *T\<close>: JSON null leaves the pointer nil,
  any other value is decoded as a \<open>T\<close> (\<open>decT\<close>, which is \<open>None\<close> on a type mismatch) and
  the pointer refers to it. Empty input is a syntax error.
\<close>

definition json_Unmarshal :: "(json \<Rightarrow> 'a option) \<Rightarrow> RawMessage \<Rightarrow> error + 'a option" where
  "json_Unmarshal decT data =
     (case data of
        None \<Rightarrow> Inl SyntaxError
      | Some JNull \<Rightarrow> Inr None
      | Some j \<Rightarrow> (case decT j of None \<Rightarrow> Inl UnmarshalTypeError | Some x \<Rightarrow> Inr (Some x)))"

text \<open>Decoding a non-null JSON value as a Go \<^verbatim>\<open>string\<close> and as a Go \<^verbatim>\<open>bool\<close>.\<close>

fun decode_string :: "json \<Rightarrow> string option" where
  "decode_string (JString s) = Some s"
| "decode_string _ = None"

fun decode_bool :: "json \<Rightarrow> bool option" where
  "decode_bool (JBool b) = Some b"
| "decode_bool _ = None"

section \<open>Optional and nullable decode wrappers\<close>

record 'a OptionalNullableData =
  IsNull :: bool
  IsNotUndefined :: bool
  rawJson :: RawMessage
  Value :: 'a

text \<open>
  \<^verbatim>\<open>OptionalNullableData[T].UnmarshalJSON\<close>. The receiver is mutated in place, so the model
  returns the receiver after the call together with the returned error (\<open>None\<close> is nil).
\<close>

definition OptionalNullableData_UnmarshalJSON ::
  "(json \<Rightarrow> 'a option) \<Rightarrow> 'a OptionalNullableData \<Rightarrow> RawMessage
     \<Rightarrow> 'a OptionalNullableData \<times> error option" where
  "OptionalNullableData_UnmarshalJSON decT v0 data =
     (let v = v0\<lparr>OptionalNullableData.rawJson := data\<rparr> in
      if OptionalNullableData.rawJson v \<noteq> None then
        (let v = v\<lparr>OptionalNullableData.IsNotUndefined := True\<rparr> in
         case json_Unmarshal decT data of
           Inl err \<Rightarrow> (v, Some err)
         | Inr None \<Rightarrow> (v\<lparr>OptionalNullableData.IsNull := True\<rparr>, None)
         | Inr (Some x) \<Rightarrow> (v\<lparr>OptionalNullableData.Value := x\<rparr>, None))
      else (v, None))"

record 'a OptionalData =
  IsNotUndefined :: bool
  rawJson :: RawMessage
  Value :: 'a

text \<open>\<^verbatim>\<open>OptionalData[T].UnmarshalJSON\<close>: the same, but a nil pointer is an error.\<close>

definition OptionalData_UnmarshalJSON ::
  "(json \<Rightarrow> 'a option) \<Rightarrow> 'a OptionalData \<Rightarrow> RawMessage \<Rightarrow> 'a OptionalData \<times> error option" where
  "OptionalData_UnmarshalJSON decT v0 data =
     (let v = v0\<lparr>OptionalData.rawJson := data\<rparr> in
      if OptionalData.rawJson v \<noteq> None then
        (case json_Unmarshal decT data of
           Inl err \<Rightarrow> (v, Some err)
         | Inr None \<Rightarrow> (v, Some (errors_New ''field value cannot be null''))
         | Inr (Some x) \<Rightarrow>
             (v\<lparr>OptionalData.Value := x, OptionalData.IsNotUndefined := True\<rparr>, None))
      else (v, None))"

text \<open>
  A struct field of wrapper type starts as Go's zero value (\<open>z\<close> is the zero value of
  \<open>T\<close>). The library decoder calls the field's \<^verbatim>\<open>UnmarshalJSON\<close> with the member's
  value when the document has a member of the field's name, JSON null included, and does
  not touch the field otherwise. A document is a JSON object whose member names are
  unique, a finite map from names to values.
\<close>

type_synonym document = "string \<rightharpoonup> json"

definition OptionalNullableData_zero :: "'a \<Rightarrow> 'a OptionalNullableData" where
  "OptionalNullableData_zero z =
     \<lparr>IsNull = False, IsNotUndefined = False, rawJson = None, Value = z\<rparr>"

definition OptionalData_zero :: "'a \<Rightarrow> 'a OptionalData" where
  "OptionalData_zero z = \<lparr>IsNotUndefined = False, rawJson = None, Value = z\<rparr>"

definition decode_OptionalNullableData ::
  "(json \<Rightarrow> 'a option) \<Rightarrow> 'a \<Rightarrow> document \<Rightarrow> string
     \<Rightarrow> 'a OptionalNullableData \<times> error option" where
  "decode_OptionalNullableData decT z doc f =
     (case doc f of
        None \<Rightarrow> (OptionalNullableData_zero z, None)
      | Some j \<Rightarrow> OptionalNullableData_UnmarshalJSON decT (OptionalNullableData_zero z) (Some j))"

definition decode_OptionalData ::
  "(json \<Rightarrow> 'a option) \<Rightarrow> 'a \<Rightarrow> document \<Rightarrow> string \<Rightarrow> 'a OptionalData \<times> error option" where
  "decode_OptionalData decT z doc f =
     (case doc f of
        None \<Rightarrow> (OptionalData_zero z, None)
      | Some j \<Rightarrow> OptionalData_UnmarshalJSON decT (OptionalData_zero z) (Some j))"

text \<open>The state a wrapper is in, read off its flags.\<close>

datatype 'a field_state = Undefined | Null | Present 'a

definition OptionalNullableData_state :: "'a OptionalNullableData \<Rightarrow> 'a field_state" where
  "OptionalNullableData_state v =
     (if \<not> OptionalNullableData.IsNotUndefined v then Undefined
      else if OptionalNullableData.IsNull v then Null
      else Present (OptionalNullableData.Value v))"

definition OptionalData_state :: "'a OptionalData \<Rightarrow> 'a field_state" where
  "OptionalData_state v =
     (if \<not> OptionalData.IsNotUndefined v then Undefined
      else Present (OptionalData.Value v))"

section \<open>Nullable string adapter\<close>

record NullString =
  String :: string
  Valid :: bool

text \<open>
  \<^verbatim>\<open>NullString.MarshalJSON\<close>: \<^verbatim>\<open>json.Marshal\<close> of a string or of nil cannot fail, so
  the result is the JSON value written.
\<close>

definition NullString_MarshalJSON :: "NullString \<Rightarrow> json" where
  "NullString_MarshalJSON v = (if Valid v then JString (String v) else JNull)"

definition NullString_UnmarshalJSON :: "NullString \<Rightarrow> RawMessage \<Rightarrow> NullString \<times> error option" where
  "NullString_UnmarshalJSON v data =
     (case json_Unmarshal decode_string data of
        Inl err \<Rightarrow> (v, Some err)
      | Inr x \<Rightarrow>
          (if x = None \<or> x = Some '''' then (v\<lparr>Valid := False\<rparr>, None)
           else (v\<lparr>Valid := True, String := the x\<rparr>, None)))"

section \<open>Entities and storage\<close>

text \<open>
  Modelled from the spec: the declarations of package \<^verbatim>\<open>models\<close> (the entity structs
  and the two request schemas) are not among the sources. Each record has the fields
  that the handlers read and write, with the types the handlers use them at. In the
  partial-update schema the comment is the nullable wrapper (the handler reads its
  \<^verbatim>\<open>IsNull\<close>), every other field the non-nullable one.
\<close>

record ChangeLog =
  Field :: string
  OldValue :: "string option"
  UpdatedValue :: "string option"

record Audit =
  UserId :: int
  TypeId :: int
  Timestamp :: nat
  Type :: string
  ChangeLogs :: "ChangeLog list"

record User =
  Id :: int
  Username :: string

record LicenseDB =
  Id :: int
  Shortname :: string

record ObligationMap =
  ObligationPk :: int
  RfPk :: int

record ObligationPOSTRequestJSONSchema =
  Topic :: string
  Type :: string
  Text :: string
  Classification :: string
  Modifications :: bool
  Comment :: NullString
  Active :: bool
  Shortnames :: "string list"

record ObligationPATCHRequestJSONSchema =
  Type :: "string OptionalData"
  Text :: "string OptionalData"
  Classification :: "string OptionalData"
  Modifications :: "bool OptionalData"
  Comment :: "string OptionalNullableData"
  Active :: "bool OptionalData"
  TextUpdatable :: "bool OptionalData"

record Obligation =
  Id :: int
  Topic :: string
  Type :: string
  Text :: string
  Classification :: string
  Modifications :: bool
  Comment :: NullString
  Active :: bool
  TextUpdatable :: bool
  Md5 :: string

text \<open>Go's zero value of \<^verbatim>\<open>models.Obligation\<close>.\<close>

definition Obligation_zero :: Obligation where
  "Obligation_zero =
     \<lparr>Id = 0, Topic = '''', Type = '''', Text = '''', Classification = '''',
      Modifications = False, Comment = \<lparr>String = '''', Valid = False\<rparr>, Active = False,
      TextUpdatable = False, Md5 = ''''\<rparr>"

text \<open>
  The database: one list per table, in primary-key order, so that \<^verbatim>\<open>First\<close> is the
  first row of the list that satisfies the condition.
\<close>

record DB =
  obligations :: "Obligation list"
  licenses :: "LicenseDB list"
  obligation_maps :: "ObligationMap list"
  users :: "User list"
  audits :: "Audit list"

text \<open>
  What a handler takes from outside the code shown: the digest function
  (\<^verbatim>\<open>hex.EncodeToString\<close> of \<^verbatim>\<open>md5.Sum\<close>), the authenticated user name of the request,
  the clock, and the error, if any, with which the storage layer answers the INSERT of
  \<^verbatim>\<open>FirstOrCreate\<close>, the UPDATE of \<^verbatim>\<open>Updates\<close> and the INSERT of the audit row.
\<close>

record Env =
  md5hex :: "string \<Rightarrow> string"
  username :: string
  now :: nat
  insert_error :: "string option"
  update_error :: "string option"
  audit_error :: "string option"

text \<open>
  A handler either answers with a \<^verbatim>\<open>models.LicenseError\<close> (status, message, error text)
  or panics. The statuses are those of \<^verbatim>\<open>net/http\<close>.
\<close>

datatype failure =
    LicenseError nat string string
  | Panic string

definition StatusBadRequest :: nat where "StatusBadRequest = 400"
definition StatusNotFound :: nat where "StatusNotFound = 404"
definition StatusConflict :: nat where "StatusConflict = 409"
definition StatusInternalServerError :: nat where "StatusInternalServerError = 500"

text \<open>The error taxonomy of the specification, by status.\<close>

fun ValidationError :: "failure + 'a \<Rightarrow> bool" where
  "ValidationError (Inl (LicenseError st _ _)) = (st = StatusBadRequest)"
| "ValidationError _ = False"

fun NotFoundError :: "failure + 'a \<Rightarrow> bool" where
  "NotFoundError (Inl (LicenseError st _ _)) = (st = StatusNotFound)"
| "NotFoundError _ = False"

fun ConflictError :: "failure + 'a \<Rightarrow> bool" where
  "ConflictError (Inl (LicenseError st _ _)) = (st = StatusConflict)"
| "ConflictError _ = False"

fun InternalError :: "failure + 'a \<Rightarrow> bool" where
  "InternalError (Inl (LicenseError st _ _)) = (st = StatusInternalServerError)"
| "InternalError _ = False"

text \<open>A string between single quotes, as \<^verbatim>\<open>'%s'\<close> formats it.\<close>

definition quoted :: "string \<Rightarrow> string" where
  "quoted s = [CHR 0x27] @ s @ [CHR 0x27]"

definition FormatBool :: "bool \<Rightarrow> string" where
  "FormatBool b = (if b then ''true'' else ''false'')"

text \<open>The text of \<^verbatim>\<open>err.Error()\<close>; the library's own messages are abbreviated.\<close>

fun err_Error :: "error \<Rightarrow> string" where
  "err_Error SyntaxError = ''unexpected end of JSON input''"
| "err_Error UnmarshalTypeError = ''json: cannot unmarshal value''"
| "err_Error (errors_New msg) = msg"

section \<open>Binding the partial-update body\<close>

text \<open>
  Modelled from the spec: \<^verbatim>\<open>c.ShouldBindJSON(&updates)\<close> for the partial-update schema,
  whose declaration and member names are not among the sources. Every field is decoded
  from the member of its name by the wrapper's own \<^verbatim>\<open>UnmarshalJSON\<close>; the first
  error, in field order, fails the binding.
\<close>

fun first_error :: "error option list \<Rightarrow> error option" where
  "first_error [] = None"
| "first_error (None # es) = first_error es"
| "first_error (Some e # es) = Some e"

definition ShouldBindJSON_PATCH :: "document \<Rightarrow> error + ObligationPATCHRequestJSONSchema" where
  "ShouldBindJSON_PATCH doc =
     (let (ty, e1) = decode_OptionalData decode_string '''' doc ''type'';
          (tx, e2) = decode_OptionalData decode_string '''' doc ''text'';
          (cl, e3) = decode_OptionalData decode_string '''' doc ''classification'';
          (mo, e4) = decode_OptionalData decode_bool False doc ''modifications'';
          (co, e5) = decode_OptionalNullableData decode_string '''' doc ''comment'';
          (ac, e6) = decode_OptionalData decode_bool False doc ''active'';
          (tu, e7) = decode_OptionalData decode_bool False doc ''text_updatable''
      in case first_error [e1, e2, e3, e4, e5, e6, e7] of
           Some err \<Rightarrow> Inl err
         | None \<Rightarrow>
             Inr \<lparr>ObligationPATCHRequestJSONSchema.Type = ty,
                  ObligationPATCHRequestJSONSchema.Text = tx,
                  ObligationPATCHRequestJSONSchema.Classification = cl,
                  ObligationPATCHRequestJSONSchema.Modifications = mo,
                  ObligationPATCHRequestJSONSchema.Comment = co,
                  ObligationPATCHRequestJSONSchema.Active = ac,
                  ObligationPATCHRequestJSONSchema.TextUpdatable = tu\<rparr>)"

section \<open>UpdateObligation\<close>

text \<open>
  \<^verbatim>\<open>newObligationMap\<close> is a \<^verbatim>\<open>map[string]interface{}\<close> from column names to values of
  three dynamic types.
\<close>

datatype column_value = VString string | VBool bool | VNullString NullString

text \<open>
  The field policy of \<^verbatim>\<open>UpdateObligation\<close>: the checks on the decoded request and the
  construction of \<^verbatim>\<open>newObligationMap\<close>, in the order of the source. \<open>Inl\<close> is the
  response of an early return.
\<close>

definition UpdateObligation_fields ::
  "Env \<Rightarrow> Obligation \<Rightarrow> ObligationPATCHRequestJSONSchema
     \<Rightarrow> failure + (string \<rightharpoonup> column_value)" where
  "UpdateObligation_fields env oldObligation updates =
     (let text = OptionalData.Value (ObligationPATCHRequestJSONSchema.Text updates);
          ty = ObligationPATCHRequestJSONSchema.Type updates;
          classification = ObligationPATCHRequestJSONSchema.Classification updates;
          modifications = ObligationPATCHRequestJSONSchema.Modifications updates;
          comment = ObligationPATCHRequestJSONSchema.Comment updates;
          active = ObligationPATCHRequestJSONSchema.Active updates;
          textUpdatable = ObligationPATCHRequestJSONSchema.TextUpdatable updates;
          newObligationMap = Map.empty
      in
      if text \<noteq> '''' \<and> \<not> TextUpdatable oldObligation \<and> text \<noteq> Text oldObligation then
        Inl (LicenseError StatusBadRequest ''Can not update obligation text'' ''invalid request'')
      else
      let newObligationMap =
            (if TextUpdatable oldObligation \<and> (text \<noteq> '''' \<and> text \<noteq> Text oldObligation)
             then newObligationMap(''md5'' \<mapsto> VString (md5hex env text), ''text'' \<mapsto> VString text)
             else newObligationMap)
      in
      if OptionalData.IsNotUndefined ty \<and> OptionalData.Value ty = '''' then
        Inl (LicenseError StatusBadRequest ''Type cannot be an empty string'' ''invalid request'')
      else
      let newObligationMap =
            (if OptionalData.IsNotUndefined ty
             then newObligationMap(''type'' \<mapsto> VString (OptionalData.Value ty))
             else newObligationMap)
      in
      if OptionalData.IsNotUndefined classification \<and> OptionalData.Value classification = '''' then
        Inl (LicenseError StatusBadRequest ''Classification cannot be an empty string''
               ''invalid request'')
      else
      let newObligationMap =
            (if OptionalData.IsNotUndefined classification
             then newObligationMap(''classification'' \<mapsto> VString (OptionalData.Value classification))
             else newObligationMap);
          newObligationMap =
            (if OptionalData.IsNotUndefined modifications
             then newObligationMap(''modifications'' \<mapsto> VBool (OptionalData.Value modifications))
             else newObligationMap);
          newObligationMap =
            (if OptionalNullableData.IsNotUndefined comment
             then newObligationMap(''comment'' \<mapsto> VNullString
                    (if \<not> OptionalNullableData.IsNull comment
                     then \<lparr>String = OptionalNullableData.Value comment, Valid = True\<rparr>
                     else \<lparr>String = '''', Valid = False\<rparr>))
             else newObligationMap);
          newObligationMap =
            (if OptionalData.IsNotUndefined active
             then newObligationMap(''active'' \<mapsto> VBool (OptionalData.Value active))
             else newObligationMap);
          newObligationMap =
            (if OptionalData.IsNotUndefined textUpdatable
             then newObligationMap(''text_updatable'' \<mapsto> VBool (OptionalData.Value textUpdatable))
             else newObligationMap)
      in Inr newObligationMap)"

text \<open>
  \<^verbatim>\<open>Updates(newObligationMap)\<close> on one row: every column named in the map takes the map's
  value, every other column keeps its own.
\<close>

definition Updates :: "(string \<rightharpoonup> column_value) \<Rightarrow> Obligation \<Rightarrow> Obligation" where
  "Updates m row =
     row\<lparr>Md5 := (case m ''md5'' of Some (VString s) \<Rightarrow> s | _ \<Rightarrow> Md5 row),
         Text := (case m ''text'' of Some (VString s) \<Rightarrow> s | _ \<Rightarrow> Text row),
         Type := (case m ''type'' of Some (VString s) \<Rightarrow> s | _ \<Rightarrow> Type row),
         Classification :=
           (case m ''classification'' of Some (VString s) \<Rightarrow> s | _ \<Rightarrow> Classification row),
         Modifications :=
           (case m ''modifications'' of Some (VBool b) \<Rightarrow> b | _ \<Rightarrow> Modifications row),
         Comment := (case m ''comment'' of Some (VNullString c) \<Rightarrow> c | _ \<Rightarrow> Comment row),
         Active := (case m ''active'' of Some (VBool b) \<Rightarrow> b | _ \<Rightarrow> Active row),
         TextUpdatable :=
           (case m ''text_updatable'' of Some (VBool b) \<Rightarrow> b | _ \<Rightarrow> TextUpdatable row)\<rparr>"

text \<open>
  The change log of \<^verbatim>\<open>UpdateObligation\<close>: the comparisons of the snapshot taken before
  the update with the row returned after it, each appending to \<^verbatim>\<open>changes\<close>.
\<close>

definition UpdateObligation_changes :: "Obligation \<Rightarrow> Obligation \<Rightarrow> ChangeLog list" where
  "UpdateObligation_changes oldObligation newObligation =
     (let changes = [];
          changes =
            (if Topic oldObligation \<noteq> Topic newObligation
             then changes @ [\<lparr>Field = ''Topic'',
                               OldValue = Some (Topic oldObligation),
                               UpdatedValue = Some (Topic newObligation)\<rparr>]
             else changes);
          changes =
            (if Type oldObligation \<noteq> Type newObligation
             then changes @ [\<lparr>Field = ''Type'',
                               OldValue = Some (Type oldObligation),
                               UpdatedValue = Some (Type newObligation)\<rparr>]
             else changes);
          changes =
            (if Text oldObligation \<noteq> Text newObligation
             then changes @ [\<lparr>Field = ''Text'',
                               OldValue = Some (Text oldObligation),
                               UpdatedValue = Some (Text newObligation)\<rparr>]
             else changes);
          changes =
            (if Classification oldObligation \<noteq> Classification newObligation
             then (let oldVal = FormatBool (Modifications oldObligation);
                       newVal = FormatBool (Modifications newObligation)
                   in changes @ [\<lparr>Field = ''Classification'',
                                    OldValue = Some oldVal,
                                    UpdatedValue = Some newVal\<rparr>])
             else changes);
          changes =
            (if Modifications oldObligation \<noteq> Modifications newObligation
             then (let oldVal = FormatBool (Modifications oldObligation);
                       newVal = FormatBool (Modifications newObligation)
                   in changes @ [\<lparr>Field = ''Modifications'',
                                    OldValue = Some oldVal,
                                    UpdatedValue = Some newVal\<rparr>])
             else changes);
          changes =
            (if Comment oldObligation \<noteq> Comment newObligation
             then (let oldVal = (if Valid (Comment oldObligation)
                                 then Some (String (Comment oldObligation)) else None);
                       newVal = (if Valid (Comment newObligation)
                                 then Some (String (Comment newObligation)) else None)
                   in changes @ [\<lparr>Field = ''Comment'',
                                    OldValue = oldVal,
                                    UpdatedValue = newVal\<rparr>])
             else changes);
          changes =
            (if Active oldObligation \<noteq> Active newObligation
             then (let oldVal = FormatBool (Active oldObligation);
                       newVal = FormatBool (Active newObligation)
                   in changes @ [\<lparr>Field = ''Active'',
                                    OldValue = Some oldVal,
                                    UpdatedValue = Some newVal\<rparr>])
             else changes);
          changes =
            (if TextUpdatable oldObligation \<noteq> TextUpdatable newObligation
             then (let oldVal = FormatBool (TextUpdatable oldObligation);
                       newVal = FormatBool (TextUpdatable newObligation)
                   in changes @ [\<lparr>Field = ''TextUpdatable'',
                                    OldValue = Some oldVal,
                                    UpdatedValue = Some newVal\<rparr>])
             else changes)
      in changes)"

text \<open>
  \<^verbatim>\<open>UpdateObligation\<close>. The argument \<open>bound\<close> is the outcome of
  \<^verbatim>\<open>c.ShouldBindJSON(&updates)\<close>. The body runs in \<^verbatim>\<open>db.DB.Transaction\<close>: when it
  returns an error the transaction is rolled back and the database is the one before the
  call. \<^verbatim>\<open>newObligation\<close> starts as the zero value with the identifier of the row
  loaded. The UPDATE addresses the row by that primary key and \<^verbatim>\<open>clause.Returning\<close>
  loads the updated row into \<^verbatim>\<open>newObligation\<close>. For a map that names no column the
  storage layer sends no statement and reports no error: nothing is written and
  \<^verbatim>\<open>newObligation\<close> stays the zero value with only its identifier set.
\<close>

definition UpdateObligation ::
  "Env \<Rightarrow> string \<Rightarrow> error + ObligationPATCHRequestJSONSchema \<Rightarrow> DB
     \<Rightarrow> (failure + Obligation) \<times> DB" where
  "UpdateObligation env tp bound db =
     (case find (\<lambda>row. Topic row = tp) (obligations db) of
        None \<Rightarrow>
          (Inl (LicenseError StatusNotFound
                  (''obligation with topic '' @ quoted tp @ '' not found'') ''record not found''), db)
      | Some oldObligation \<Rightarrow>
          (case bound of
             Inl err \<Rightarrow>
               (Inl (LicenseError StatusBadRequest ''invalid json body'' (err_Error err)), db)
           | Inr updates \<Rightarrow>
               (case UpdateObligation_fields env oldObligation updates of
                  Inl er \<Rightarrow> (Inl er, db)
                | Inr newObligationMap \<Rightarrow>
                    (case (if newObligationMap = Map.empty then None else update_error env) of
                       Some msg \<Rightarrow>
                         (Inl (LicenseError StatusInternalServerError
                                 ''Failed to update license'' msg), db)
                     | None \<Rightarrow>
                         (let newObligation =
                                (if newObligationMap = Map.empty
                                 then Obligation_zero\<lparr>Id := Id oldObligation\<rparr>
                                 else Updates newObligationMap oldObligation);
                              tx = (if newObligationMap = Map.empty then db
                                    else db\<lparr>obligations :=
                                           map (\<lambda>row. if Id row = Id oldObligation
                                                      then Updates newObligationMap row else row)
                                               (obligations db)\<rparr>)
                          in case find (\<lambda>u. Username u = username env) (users tx) of
                               None \<Rightarrow>
                                 (Inl (LicenseError StatusInternalServerError
                                         ''Failed to update license'' ''record not found''), db)
                             | Some user \<Rightarrow>
                                 (let changes =
                                        UpdateObligation_changes oldObligation newObligation
                                  in if changes \<noteq> [] then
                                       (case audit_error env of
                                          Some msg \<Rightarrow>
                                            (Inl (LicenseError StatusInternalServerError
                                                    ''Failed to update license'' msg), db)
                                        | None \<Rightarrow>
                                            (Inr newObligation,
                                             tx\<lparr>audits := audits tx @
                                                  [\<lparr>UserId = User.Id user,
                                                    TypeId = Id newObligation,
                                                    Timestamp = now env,
                                                    Audit.Type = ''Obligation'',
                                                    ChangeLogs = changes\<rparr>]\<rparr>))
                                     else (Inr newObligation, tx)))))))"

section \<open>CreateObligation\<close>

text \<open>
  The outcome of a storage call as the handler reads it: \<^verbatim>\<open>result.RowsAffected\<close> and
  \<^verbatim>\<open>result.Error\<close> (\<open>None\<close> is nil).
\<close>

record gorm_result =
  RowsAffected :: nat
  Error :: "string option"

text \<open>The identifier the storage layer gives a new row: one above the largest in use.\<close>

definition next_Id :: "Obligation list \<Rightarrow> int" where
  "next_Id rows = foldr max (map Id rows) 0 + 1"

text \<open>
  \<^verbatim>\<open>Where(topic).Or(md5).FirstOrCreate(&obligation)\<close>: the first row whose topic or whose
  digest is that of \<open>obligation\<close> is loaded into \<open>obligation\<close> and nothing is written;
  when there is none, \<open>obligation\<close> is inserted and takes its new identifier. An INSERT
  that the storage layer refuses writes nothing and reports the error.
\<close>

definition FirstOrCreate :: "Env \<Rightarrow> Obligation \<Rightarrow> DB \<Rightarrow> gorm_result \<times> Obligation \<times> DB" where
  "FirstOrCreate env obligation db =
     (case find (\<lambda>row. Topic row = Topic obligation \<or> Md5 row = Md5 obligation)
                (obligations db) of
        Some row \<Rightarrow> (\<lparr>RowsAffected = 0, Error = None\<rparr>, row, db)
      | None \<Rightarrow>
          (case insert_error env of
             Some msg \<Rightarrow> (\<lparr>RowsAffected = 0, Error = Some msg\<rparr>, obligation, db)
           | None \<Rightarrow>
               (let created = obligation\<lparr>Id := next_Id (obligations db)\<rparr>
                in (\<lparr>RowsAffected = 1, Error = None\<rparr>, created,
                    db\<lparr>obligations := obligations db @ [created]\<rparr>))))"

text \<open>
  The loop over \<^verbatim>\<open>input.Shortnames\<close>. Modelled from the spec: for a short name that no
  license has, the handler still asks the storage layer to insert a link to license 0 and
  ignores the answer; the specification records that no link is created then.
\<close>

fun link_licenses :: "int \<Rightarrow> string list \<Rightarrow> DB \<Rightarrow> DB" where
  "link_licenses obligationPk [] db = db"
| "link_licenses obligationPk (i # shortnames) db =
     link_licenses obligationPk shortnames
       (case find (\<lambda>l. Shortname l = i) (licenses db) of
          None \<Rightarrow> db
        | Some license \<Rightarrow>
            db\<lparr>obligation_maps := obligation_maps db @
                 [\<lparr>ObligationPk = obligationPk, RfPk = LicenseDB.Id license\<rparr>]\<rparr>)"

text \<open>
  \<^verbatim>\<open>CreateObligation\<close>. The argument \<open>bound\<close> is the outcome of
  \<^verbatim>\<open>c.ShouldBindJSON(&input)\<close>. The conflict response slices \<^verbatim>\<open>obligation.Text[0:10]\<close>,
  which panics on a text of fewer than ten bytes.
\<close>

definition CreateObligation ::
  "Env \<Rightarrow> error + ObligationPOSTRequestJSONSchema \<Rightarrow> DB \<Rightarrow> (failure + Obligation) \<times> DB" where
  "CreateObligation env bound db =
     (case bound of
        Inl err \<Rightarrow>
          (Inl (LicenseError StatusBadRequest ''invalid json body'' (err_Error err)), db)
      | Inr input \<Rightarrow>
          (let s = ObligationPOSTRequestJSONSchema.Text input;
               md5hash = md5hex env s;
               obligation =
                 \<lparr>Id = 0,
                  Topic = ObligationPOSTRequestJSONSchema.Topic input,
                  Type = ObligationPOSTRequestJSONSchema.Type input,
                  Text = ObligationPOSTRequestJSONSchema.Text input,
                  Classification = ObligationPOSTRequestJSONSchema.Classification input,
                  Modifications = ObligationPOSTRequestJSONSchema.Modifications input,
                  Comment = ObligationPOSTRequestJSONSchema.Comment input,
                  Active = ObligationPOSTRequestJSONSchema.Active input,
                  TextUpdatable = False,
                  Md5 = md5hash\<rparr>;
               (result, obligation, db') = FirstOrCreate env obligation db
           in if RowsAffected result = 0 then
                (if length (Text obligation) < 10 then
                   (Inl (Panic ''slice bounds out of range''), db')
                 else
                   (Inl (LicenseError StatusConflict
                           ''can not create obligation with same topic or text''
                           (''Error: Obligation with topic '' @ quoted (Topic obligation) @
                            '' or Text '' @ quoted (take 10 (Text obligation)) @
                            ''... already exists'')), db'))
              else if Error result \<noteq> None then
                (Inl (LicenseError StatusInternalServerError ''Failed to create obligation''
                        (the (Error result))), db')
              else
                (Inr obligation,
                 link_licenses (Id obligation)
                   (ObligationPOSTRequestJSONSchema.Shortnames input) db')))"

section \<open>DeleteObligation\<close>

text \<open>
  \<^verbatim>\<open>DeleteObligation\<close>: the row is loaded, its \<^verbatim>\<open>Active\<close> cleared, and the whole row
  saved over the one of its primary key and topic. The handler does not read the outcome
  of \<^verbatim>\<open>Save\<close>.
\<close>

definition DeleteObligation :: "string \<Rightarrow> DB \<Rightarrow> (failure + unit) \<times> DB" where
  "DeleteObligation tp db =
     (case find (\<lambda>row. Topic row = tp) (obligations db) of
        None \<Rightarrow>
          (Inl (LicenseError StatusNotFound
                  (''obligation with topic '' @ quoted tp @ '' not found'') ''record not found''), db)
      | Some loaded \<Rightarrow>
          (let obligation = loaded\<lparr>Active := False\<rparr>
           in (Inr (),
               db\<lparr>obligations :=
                    map (\<lambda>row. if Id row = Id obligation \<and> Topic row = tp
                               then obligation else row)
                        (obligations db)\<rparr>)))"
section \<open>Vocabulary of the properties\<close>

text \<open>
  The tracked fields of the specification: the eight fields that the change log
  compares, and the order in which the specification lists them.
\<close>

definition tracked_fields_differ :: "Obligation \<Rightarrow> Obligation \<Rightarrow> bool" where
  "tracked_fields_differ old new \<longleftrightarrow>
     Topic old \<noteq> Topic new \<or> Type old \<noteq> Type new \<or> Text old \<noteq> Text new \<or>
     Classification old \<noteq> Classification new \<or> Modifications old \<noteq> Modifications new \<or>
     Comment old \<noteq> Comment new \<or> Active old \<noteq> Active new \<or>
     TextUpdatable old \<noteq> TextUpdatable new"

definition tracked_field_order :: "string list" where
  "tracked_field_order =
     [''Topic'', ''Type'', ''Text'', ''Classification'', ''Modifications'', ''Comment'',
      ''Active'', ''TextUpdatable'']"

text \<open>Whether the tracked field of a given name differs between two rows.\<close>

definition field_differs :: "Obligation \<Rightarrow> Obligation \<Rightarrow> string \<Rightarrow> bool" where
  "field_differs old new f =
     (if f = ''Topic'' then Topic old \<noteq> Topic new
      else if f = ''Type'' then Type old \<noteq> Type new
      else if f = ''Text'' then Text old \<noteq> Text new
      else if f = ''Classification'' then Classification old \<noteq> Classification new
      else if f = ''Modifications'' then Modifications old \<noteq> Modifications new
      else if f = ''Comment'' then Comment old \<noteq> Comment new
      else if f = ''Active'' then Active old \<noteq> Active new
      else if f = ''TextUpdatable'' then TextUpdatable old \<noteq> TextUpdatable new
      else False)"

text \<open>
  A request body identical to the current state: every field that the request provides
  carries the value the row already has. A text counts as provided when it is not empty,
  which is how the handler reads it.
\<close>

definition body_identical :: "ObligationPATCHRequestJSONSchema \<Rightarrow> Obligation \<Rightarrow> bool" where
  "body_identical updates row \<longleftrightarrow>
     (OptionalData.Value (ObligationPATCHRequestJSONSchema.Text updates) \<noteq> '''' \<longrightarrow>
        OptionalData.Value (ObligationPATCHRequestJSONSchema.Text updates) = Text row) \<and>
     (OptionalData.IsNotUndefined (ObligationPATCHRequestJSONSchema.Type updates) \<longrightarrow>
        OptionalData.Value (ObligationPATCHRequestJSONSchema.Type updates) = Type row) \<and>
     (OptionalData.IsNotUndefined (ObligationPATCHRequestJSONSchema.Classification updates) \<longrightarrow>
        OptionalData.Value (ObligationPATCHRequestJSONSchema.Classification updates)
          = Classification row) \<and>
     (OptionalData.IsNotUndefined (ObligationPATCHRequestJSONSchema.Modifications updates) \<longrightarrow>
        OptionalData.Value (ObligationPATCHRequestJSONSchema.Modifications updates)
          = Modifications row) \<and>
     (OptionalNullableData.IsNotUndefined (ObligationPATCHRequestJSONSchema.Comment updates) \<longrightarrow>
        (if OptionalNullableData.IsNull (ObligationPATCHRequestJSONSchema.Comment updates)
         then Comment row = \<lparr>String = '''', Valid = False\<rparr>
         else Comment row =
                \<lparr>String = OptionalNullableData.Value
                            (ObligationPATCHRequestJSONSchema.Comment updates),
                 Valid = True\<rparr>)) \<and>
     (OptionalData.IsNotUndefined (ObligationPATCHRequestJSONSchema.Active updates) \<longrightarrow>
        OptionalData.Value (ObligationPATCHRequestJSONSchema.Active updates) = Active row) \<and>
     (OptionalData.IsNotUndefined (ObligationPATCHRequestJSONSchema.TextUpdatable updates) \<longrightarrow>
        OptionalData.Value (ObligationPATCHRequestJSONSchema.TextUpdatable updates)
          = TextUpdatable row)"

section \<open>A worked database\<close>

text \<open>
  One obligation whose text is not updatable, its twin whose text is, and one user. The
  digest function of the examples tags the text; the theorems hold for every digest
  function.
\<close>

definition example_env :: Env where
  "example_env =
     \<lparr>md5hex = (\<lambda>s. ''md5:'' @ s), username = ''alice'', now = 0,
      insert_error = None, update_error = None, audit_error = None\<rparr>"

definition example_row :: Obligation where
  "example_row =
     \<lparr>Id = 1, Topic = ''T1'', Type = ''obligation'', Text = ''hello'',
      Classification = ''green'', Modifications = False,
      Comment = \<lparr>String = '''', Valid = False\<rparr>, Active = True, TextUpdatable = False,
      Md5 = ''md5:hello''\<rparr>"

definition example_db :: DB where
  "example_db =
     \<lparr>obligations = [example_row], licenses = [], obligation_maps = [],
      users = [\<lparr>User.Id = 7, Username = ''alice''\<rparr>], audits = []\<rparr>"

definition example_db_updatable :: DB where
  "example_db_updatable =
     example_db\<lparr>obligations := [example_row\<lparr>TextUpdatable := True\<rparr>]\<rparr>"

text \<open>
  Decoded requests: the binding of the body \<^verbatim>\<open>{}\<close>, and the wrapper that a member
  \<open>j\<close> decoded to \<open>x\<close> leaves behind. The last is a request to create an obligation
  whose text is that of the row above.
\<close>

definition OptionalData_present :: "json \<Rightarrow> 'a \<Rightarrow> 'a OptionalData" where
  "OptionalData_present j x = \<lparr>IsNotUndefined = True, rawJson = Some j, Value = x\<rparr>"

definition empty_request :: ObligationPATCHRequestJSONSchema where
  "empty_request =
     \<lparr>ObligationPATCHRequestJSONSchema.Type = OptionalData_zero '''',
      ObligationPATCHRequestJSONSchema.Text = OptionalData_zero '''',
      ObligationPATCHRequestJSONSchema.Classification = OptionalData_zero '''',
      ObligationPATCHRequestJSONSchema.Modifications = OptionalData_zero False,
      ObligationPATCHRequestJSONSchema.Comment = OptionalNullableData_zero '''',
      ObligationPATCHRequestJSONSchema.Active = OptionalData_zero False,
      ObligationPATCHRequestJSONSchema.TextUpdatable = OptionalData_zero False\<rparr>"

definition example_create_request :: ObligationPOSTRequestJSONSchema where
  "example_create_request =
     \<lparr>ObligationPOSTRequestJSONSchema.Topic = ''T2'',
      ObligationPOSTRequestJSONSchema.Type = ''right'',
      ObligationPOSTRequestJSONSchema.Text = ''hello'',
      ObligationPOSTRequestJSONSchema.Classification = ''white'',
      ObligationPOSTRequestJSONSchema.Modifications = False,
      ObligationPOSTRequestJSONSchema.Comment = \<lparr>String = '''', Valid = False\<rparr>,
      ObligationPOSTRequestJSONSchema.Active = True,
      ObligationPOSTRequestJSONSchema.Shortnames = []\<rparr>"
section \<open>Properties of the decoders\<close>

text \<open>
  Claim C3. A field decoded into the optional and nullable wrapper resolves to one of
  three states. When the document has no member of the field's name the state is
  undefined and there is no error; when the member is JSON null the state is null and
  there is no error; when the member is any other value it is decoded as a \<open>T\<close>: on
  success the state is present with that value, on a type mismatch the decoder fails.
\<close>

theorem OptionalNullableData_three_states:
  "(doc f = None \<longrightarrow>
      snd (decode_OptionalNullableData decT z doc f) = None \<and>
      OptionalNullableData_state (fst (decode_OptionalNullableData decT z doc f)) = Undefined) \<and>
   (doc f = Some JNull \<longrightarrow>
      snd (decode_OptionalNullableData decT z doc f) = None \<and>
      OptionalNullableData_state (fst (decode_OptionalNullableData decT z doc f)) = Null) \<and>
   (doc f = Some j \<and> j \<noteq> JNull \<and> decT j = Some x \<longrightarrow>
      snd (decode_OptionalNullableData decT z doc f) = None \<and>
      OptionalNullableData_state (fst (decode_OptionalNullableData decT z doc f)) = Present x) \<and>
   (doc f = Some j \<and> j \<noteq> JNull \<and> decT j = None \<longrightarrow>
      snd (decode_OptionalNullableData decT z doc f) = Some UnmarshalTypeError)"
  by (auto simp: decode_OptionalNullableData_def OptionalNullableData_UnmarshalJSON_def
        OptionalNullableData_zero_def OptionalNullableData_state_def json_Unmarshal_def
        split: json.splits option.splits)

theorem OptionalNullableData_three_states_witness:
  "(Map.empty :: document) ''f'' = None \<and>
   OptionalNullableData_state
     (fst (decode_OptionalNullableData decode_string '''' Map.empty ''f'')) = Undefined \<and>
   [''f'' \<mapsto> JNull] ''f'' = Some JNull \<and>
   OptionalNullableData_state
     (fst (decode_OptionalNullableData decode_string '''' [''f'' \<mapsto> JNull] ''f'')) = Null \<and>
   [''f'' \<mapsto> JString ''x''] ''f'' = Some (JString ''x'') \<and> JString ''x'' \<noteq> JNull \<and>
   decode_string (JString ''x'') = Some ''x'' \<and>
   OptionalNullableData_state
     (fst (decode_OptionalNullableData decode_string '''' [''f'' \<mapsto> JString ''x''] ''f''))
     = Present ''x'' \<and>
   [''f'' \<mapsto> JBool True] ''f'' = Some (JBool True) \<and> JBool True \<noteq> JNull \<and>
   decode_string (JBool True) = None \<and>
   snd (decode_OptionalNullableData decode_string '''' [''f'' \<mapsto> JBool True] ''f'')
     = Some UnmarshalTypeError"
  using OptionalNullableData_three_states
      [where doc = Map.empty and f = "''f''" and decT = decode_string and z = "''''"]
    OptionalNullableData_three_states
      [where doc = "[''f'' \<mapsto> JNull]" and f = "''f''" and decT = decode_string and z = "''''"]
    OptionalNullableData_three_states
      [where doc = "[''f'' \<mapsto> JString ''x'']" and f = "''f''" and decT = decode_string
         and z = "''''" and j = "JString ''x''" and x = "''x''"]
    OptionalNullableData_three_states
      [where doc = "[''f'' \<mapsto> JBool True]" and f = "''f''" and decT = decode_string
         and z = "''''" and j = "JBool True"]
  by simp

text \<open>
  Claim C4. Decoding into the optional wrapper that is not nullable fails with the error
  "field value cannot be null" when the member is JSON null; when the document has no
  member of the field's name the state is undefined and there is no error; a member with
  a value other than null that decodes as a \<open>T\<close> gives the state present with that value.
\<close>

theorem OptionalData_rejects_null:
  "(doc f = Some JNull \<longrightarrow>
      snd (decode_OptionalData decT z doc f) = Some (errors_New ''field value cannot be null'')) \<and>
   (doc f = None \<longrightarrow>
      snd (decode_OptionalData decT z doc f) = None \<and>
      OptionalData_state (fst (decode_OptionalData decT z doc f)) = Undefined) \<and>
   (doc f = Some j \<and> j \<noteq> JNull \<and> decT j = Some x \<longrightarrow>
      snd (decode_OptionalData decT z doc f) = None \<and>
      OptionalData_state (fst (decode_OptionalData decT z doc f)) = Present x)"
  by (auto simp: decode_OptionalData_def OptionalData_UnmarshalJSON_def
        OptionalData_zero_def OptionalData_state_def json_Unmarshal_def
        split: json.splits option.splits)

theorem OptionalData_rejects_null_witness:
  "[''f'' \<mapsto> JNull] ''f'' = Some JNull \<and>
   snd (decode_OptionalData decode_bool False [''f'' \<mapsto> JNull] ''f'')
     = Some (errors_New ''field value cannot be null'') \<and>
   (Map.empty :: document) ''f'' = None \<and>
   OptionalData_state (fst (decode_OptionalData decode_bool False Map.empty ''f'')) = Undefined \<and>
   [''f'' \<mapsto> JBool False] ''f'' = Some (JBool False) \<and> JBool False \<noteq> JNull \<and>
   decode_bool (JBool False) = Some False \<and>
   OptionalData_state (fst (decode_OptionalData decode_bool False [''f'' \<mapsto> JBool False] ''f''))
     = Present False"
  using OptionalData_rejects_null
      [where doc = "[''f'' \<mapsto> JNull]" and f = "''f''" and decT = decode_bool and z = False]
    OptionalData_rejects_null
      [where doc = Map.empty and f = "''f''" and decT = decode_bool and z = False]
    OptionalData_rejects_null
      [where doc = "[''f'' \<mapsto> JBool False]" and f = "''f''" and decT = decode_bool
         and z = False and j = "JBool False" and x = False]
  by simp

text \<open>
  Claim C8. The nullable string on the wire: a valid string is encoded as its string
  value and an invalid one as null; decoding null or the empty string gives the invalid
  state, and decoding a string that is not empty gives the valid state with that value.
\<close>

theorem NullString_wire_format:
  "(Valid v \<longrightarrow> NullString_MarshalJSON v = JString (String v)) \<and>
   (\<not> Valid v \<longrightarrow> NullString_MarshalJSON v = JNull) \<and>
   (data = Some JNull \<or> data = Some (JString '''') \<longrightarrow>
      snd (NullString_UnmarshalJSON v data) = None \<and>
      \<not> Valid (fst (NullString_UnmarshalJSON v data))) \<and>
   (data = Some (JString s) \<and> s \<noteq> '''' \<longrightarrow>
      snd (NullString_UnmarshalJSON v data) = None \<and>
      Valid (fst (NullString_UnmarshalJSON v data)) \<and>
      String (fst (NullString_UnmarshalJSON v data)) = s)"
  by (auto simp: NullString_MarshalJSON_def NullString_UnmarshalJSON_def json_Unmarshal_def)

theorem NullString_wire_format_witness:
  "Valid \<lparr>String = ''a'', Valid = True\<rparr> \<and>
   NullString_MarshalJSON \<lparr>String = ''a'', Valid = True\<rparr> = JString ''a'' \<and>
   \<not> Valid \<lparr>String = '''', Valid = False\<rparr> \<and>
   NullString_MarshalJSON \<lparr>String = '''', Valid = False\<rparr> = JNull \<and>
   \<not> Valid (fst (NullString_UnmarshalJSON \<lparr>String = ''a'', Valid = True\<rparr> (Some JNull))) \<and>
   \<not> Valid (fst (NullString_UnmarshalJSON \<lparr>String = ''a'', Valid = True\<rparr>
                  (Some (JString '''')))) \<and>
   ''b'' \<noteq> '''' \<and>
   Valid (fst (NullString_UnmarshalJSON \<lparr>String = '''', Valid = False\<rparr>
                (Some (JString ''b'')))) \<and>
   String (fst (NullString_UnmarshalJSON \<lparr>String = '''', Valid = False\<rparr>
                 (Some (JString ''b'')))) = ''b''"
  using NullString_wire_format
      [where v = "\<lparr>String = ''a'', Valid = True\<rparr>" and data = "Some JNull"]
    NullString_wire_format
      [where v = "\<lparr>String = '''', Valid = False\<rparr>" and data = "Some (JString ''b'')"
         and s = "''b''"]
    NullString_wire_format
      [where v = "\<lparr>String = ''a'', Valid = True\<rparr>" and data = "Some (JString '''')"]
  by simp
section \<open>Lemmas about the update\<close>

text \<open>
  The change log is the concatenation of one optional entry per tracked field, so it is
  empty exactly when no tracked field differs and its field names are a subsequence of
  the order of the fields.
\<close>

lemma append_if_singleton: "(if c then xs @ [x] else xs) = xs @ (if c then [x] else [])"
  by simp

lemma UpdateObligation_changes_concat:
  "UpdateObligation_changes old new =
     (if Topic old \<noteq> Topic new
      then [\<lparr>Field = ''Topic'', OldValue = Some (Topic old), UpdatedValue = Some (Topic new)\<rparr>]
      else []) @
     (if Type old \<noteq> Type new
      then [\<lparr>Field = ''Type'', OldValue = Some (Type old), UpdatedValue = Some (Type new)\<rparr>]
      else []) @
     (if Text old \<noteq> Text new
      then [\<lparr>Field = ''Text'', OldValue = Some (Text old), UpdatedValue = Some (Text new)\<rparr>]
      else []) @
     (if Classification old \<noteq> Classification new
      then [\<lparr>Field = ''Classification'', OldValue = Some (FormatBool (Modifications old)),
             UpdatedValue = Some (FormatBool (Modifications new))\<rparr>]
      else []) @
     (if Modifications old \<noteq> Modifications new
      then [\<lparr>Field = ''Modifications'', OldValue = Some (FormatBool (Modifications old)),
             UpdatedValue = Some (FormatBool (Modifications new))\<rparr>]
      else []) @
     (if Comment old \<noteq> Comment new
      then [\<lparr>Field = ''Comment'',
             OldValue = (if Valid (Comment old) then Some (String (Comment old)) else None),
             UpdatedValue = (if Valid (Comment new) then Some (String (Comment new)) else None)\<rparr>]
      else []) @
     (if Active old \<noteq> Active new
      then [\<lparr>Field = ''Active'', OldValue = Some (FormatBool (Active old)),
             UpdatedValue = Some (FormatBool (Active new))\<rparr>]
      else []) @
     (if TextUpdatable old \<noteq> TextUpdatable new
      then [\<lparr>Field = ''TextUpdatable'', OldValue = Some (FormatBool (TextUpdatable old)),
             UpdatedValue = Some (FormatBool (TextUpdatable new))\<rparr>]
      else [])"
  unfolding UpdateObligation_changes_def Let_def append_if_singleton [of _ _ "_" ]
  by (simp only: append_Nil append_assoc)


lemma UpdateObligation_changes_nonempty:
  "UpdateObligation_changes old new \<noteq> [] \<longleftrightarrow> tracked_fields_differ old new"
  by (simp add: UpdateObligation_changes_concat tracked_fields_differ_def)

lemma subseq_if_singleton: "subseq (if c then [x] else []) [x]"
  by simp

lemma tracked_field_order_split:
  "tracked_field_order =
     [''Topic''] @ [''Type''] @ [''Text''] @ [''Classification''] @ [''Modifications''] @
     [''Comment''] @ [''Active''] @ [''TextUpdatable'']"
  by (simp add: tracked_field_order_def)

lemma map_Field_if: "map Field (if c then [e] else []) = (if c then [Field e] else [])"
  by simp

lemma UpdateObligation_changes_order:
  "subseq (map Field (UpdateObligation_changes old new)) tracked_field_order"
  unfolding UpdateObligation_changes_concat tracked_field_order_split map_append map_Field_if
  by (intro list_emb_append_mono) (simp_all only: ChangeLog.simps subseq_if_singleton)

lemma UpdateObligation_success_row:
  assumes "fst (UpdateObligation env tp bound db) = Inr new"
  shows "\<exists>old. find (\<lambda>row. Topic row = tp) (obligations db) = Some old"
  using assms by (cases "find (\<lambda>row. Topic row = tp) (obligations db)")
    (simp_all add: UpdateObligation_def)

lemma UpdateObligation_success:
  assumes cur: "find (\<lambda>row. Topic row = tp) (obligations db) = Some old"
    and ok: "fst (UpdateObligation env tp bound db) = Inr new"
  shows "\<exists>updates m (user :: User).
    bound = Inr updates \<and>
    UpdateObligation_fields env old updates = Inr m \<and>
    new = (if m = Map.empty then Obligation_zero\<lparr>Id := Id old\<rparr> else Updates m old) \<and>
    obligations (snd (UpdateObligation env tp bound db)) =
       (if m = Map.empty then obligations db
        else map (\<lambda>row. if Id row = Id old then Updates m row else row) (obligations db)) \<and>
    audits (snd (UpdateObligation env tp bound db)) =
       (if UpdateObligation_changes old new \<noteq> []
        then audits db @
             [\<lparr>UserId = User.Id user, TypeId = Id new, Timestamp = now env,
               Audit.Type = ''Obligation'',
               ChangeLogs = UpdateObligation_changes old new\<rparr>]
        else audits db)"
proof -
  obtain updates where b: "bound = Inr updates"
    using ok cur by (cases bound) (simp_all add: UpdateObligation_def)
  obtain m where f: "UpdateObligation_fields env old updates = Inr m"
    using ok cur b by (cases "UpdateObligation_fields env old updates")
      (simp_all add: UpdateObligation_def)
  show ?thesis
  proof (cases "m = Map.empty")
    case True
    have "new = Obligation_zero\<lparr>Id := Id old\<rparr> \<and>
      obligations (snd (UpdateObligation env tp bound db)) = obligations db \<and>
      (\<exists>user :: User. audits (snd (UpdateObligation env tp bound db)) =
       (if UpdateObligation_changes old new \<noteq> []
        then audits db @
             [\<lparr>UserId = User.Id user, TypeId = Id new, Timestamp = now env,
               Audit.Type = ''Obligation'',
               ChangeLogs = UpdateObligation_changes old new\<rparr>]
        else audits db))"
      using ok
      by (auto simp: UpdateObligation_def cur b f True Let_def split: option.splits if_splits)
    then show ?thesis using b f True by auto
  next
    case False
    have "new = Updates m old \<and>
      obligations (snd (UpdateObligation env tp bound db)) =
        map (\<lambda>row. if Id row = Id old then Updates m row else row) (obligations db) \<and>
      (\<exists>user :: User. audits (snd (UpdateObligation env tp bound db)) =
       (if UpdateObligation_changes old new \<noteq> []
        then audits db @
             [\<lparr>UserId = User.Id user, TypeId = Id new, Timestamp = now env,
               Audit.Type = ''Obligation'',
               ChangeLogs = UpdateObligation_changes old new\<rparr>]
        else audits db))"
      using ok
      by (auto simp: UpdateObligation_def cur b f False Let_def split: option.splits if_splits)
    then show ?thesis using b f False by auto
  qed
qed

lemma field_differs_simps:
  "field_differs old new ''Topic'' \<longleftrightarrow> Topic old \<noteq> Topic new"
  "field_differs old new ''Type'' \<longleftrightarrow> Type old \<noteq> Type new"
  "field_differs old new ''Text'' \<longleftrightarrow> Text old \<noteq> Text new"
  "field_differs old new ''Classification'' \<longleftrightarrow> Classification old \<noteq> Classification new"
  "field_differs old new ''Modifications'' \<longleftrightarrow> Modifications old \<noteq> Modifications new"
  "field_differs old new ''Comment'' \<longleftrightarrow> Comment old \<noteq> Comment new"
  "field_differs old new ''Active'' \<longleftrightarrow> Active old \<noteq> Active new"
  "field_differs old new ''TextUpdatable'' \<longleftrightarrow> TextUpdatable old \<noteq> TextUpdatable new"
  by (simp_all add: field_differs_def)

lemma UpdateObligation_changes_fields:
  "map Field (UpdateObligation_changes old new)
     = filter (field_differs old new) tracked_field_order"
  by (simp add: UpdateObligation_changes_concat tracked_field_order_def field_differs_simps)

lemma UpdateObligation_fields_Updates:
  assumes "UpdateObligation_fields env old updates = Inr m"
  shows "Updates m row =
     row\<lparr>Md5 :=
           (if TextUpdatable old \<and>
               OptionalData.Value (ObligationPATCHRequestJSONSchema.Text updates) \<noteq> '''' \<and>
               OptionalData.Value (ObligationPATCHRequestJSONSchema.Text updates) \<noteq> Text old
            then md5hex env (OptionalData.Value (ObligationPATCHRequestJSONSchema.Text updates))
            else Md5 row),
         Text :=
           (if TextUpdatable old \<and>
               OptionalData.Value (ObligationPATCHRequestJSONSchema.Text updates) \<noteq> '''' \<and>
               OptionalData.Value (ObligationPATCHRequestJSONSchema.Text updates) \<noteq> Text old
            then OptionalData.Value (ObligationPATCHRequestJSONSchema.Text updates)
            else Text row),
         Type :=
           (if OptionalData.IsNotUndefined (ObligationPATCHRequestJSONSchema.Type updates)
            then OptionalData.Value (ObligationPATCHRequestJSONSchema.Type updates)
            else Type row),
         Classification :=
           (if OptionalData.IsNotUndefined (ObligationPATCHRequestJSONSchema.Classification updates)
            then OptionalData.Value (ObligationPATCHRequestJSONSchema.Classification updates)
            else Classification row),
         Modifications :=
           (if OptionalData.IsNotUndefined (ObligationPATCHRequestJSONSchema.Modifications updates)
            then OptionalData.Value (ObligationPATCHRequestJSONSchema.Modifications updates)
            else Modifications row),
         Comment :=
           (if OptionalNullableData.IsNotUndefined (ObligationPATCHRequestJSONSchema.Comment updates)
            then (if \<not> OptionalNullableData.IsNull (ObligationPATCHRequestJSONSchema.Comment updates)
                  then \<lparr>String = OptionalNullableData.Value
                                  (ObligationPATCHRequestJSONSchema.Comment updates),
                       Valid = True\<rparr>
                  else \<lparr>String = '''', Valid = False\<rparr>)
            else Comment row),
         Active :=
           (if OptionalData.IsNotUndefined (ObligationPATCHRequestJSONSchema.Active updates)
            then OptionalData.Value (ObligationPATCHRequestJSONSchema.Active updates)
            else Active row),
         TextUpdatable :=
           (if OptionalData.IsNotUndefined (ObligationPATCHRequestJSONSchema.TextUpdatable updates)
            then OptionalData.Value (ObligationPATCHRequestJSONSchema.TextUpdatable updates)
            else TextUpdatable row)\<rparr>"
proof -
  let ?text = "OptionalData.Value (ObligationPATCHRequestJSONSchema.Text updates)"
  let ?ty = "ObligationPATCHRequestJSONSchema.Type updates"
  let ?cl = "ObligationPATCHRequestJSONSchema.Classification updates"
  have c1: "\<not> (?text \<noteq> '''' \<and> \<not> TextUpdatable old \<and> ?text \<noteq> Text old)"
  proof
    assume c: "?text \<noteq> '''' \<and> \<not> TextUpdatable old \<and> ?text \<noteq> Text old"
    show False using assms by (simp add: UpdateObligation_fields_def Let_def c)
  qed
  have c2: "\<not> (OptionalData.IsNotUndefined ?ty \<and> OptionalData.Value ?ty = '''')"
  proof
    assume c: "OptionalData.IsNotUndefined ?ty \<and> OptionalData.Value ?ty = ''''"
    show False using assms by (simp add: UpdateObligation_fields_def Let_def c1 c)
  qed
  have c3: "\<not> (OptionalData.IsNotUndefined ?cl \<and> OptionalData.Value ?cl = '''')"
  proof
    assume c: "OptionalData.IsNotUndefined ?cl \<and> OptionalData.Value ?cl = ''''"
    show False using assms by (simp add: UpdateObligation_fields_def Let_def c1 c2 c)
  qed
  note m = assms [unfolded UpdateObligation_fields_def Let_def if_not_P [OF c1]
      if_not_P [OF c2] if_not_P [OF c3] sum.inject, symmetric]
  show ?thesis
    unfolding Updates_def by (subst m)+ (simp add: if_distribR)
qed

lemma UpdateObligation_fields_text_entry:
  assumes "UpdateObligation_fields env old updates = Inr m"
    and "TextUpdatable old"
    and "OptionalData.Value (ObligationPATCHRequestJSONSchema.Text updates) \<noteq> ''''"
    and "OptionalData.Value (ObligationPATCHRequestJSONSchema.Text updates) \<noteq> Text old"
  shows "m \<noteq> Map.empty"
proof
  assume e: "m = Map.empty"
  have "Text (Updates m old) = OptionalData.Value (ObligationPATCHRequestJSONSchema.Text updates)"
    by (simp add: UpdateObligation_fields_Updates [OF assms(1)] assms(2-4))
  moreover have "Text (Updates m old) = Text old"
    by (simp add: e Updates_def)
  ultimately show False using assms(4) by simp
qed

text \<open>The definitions that a concrete run of the handlers unfolds.\<close>

lemmas model_defs =
  UpdateObligation_def UpdateObligation_fields_def UpdateObligation_changes_def Updates_def
  ShouldBindJSON_PATCH_def decode_OptionalData_def decode_OptionalNullableData_def
  OptionalData_UnmarshalJSON_def OptionalNullableData_UnmarshalJSON_def
  OptionalData_zero_def OptionalNullableData_zero_def json_Unmarshal_def
  example_env_def example_row_def example_db_def example_db_updatable_def
  StatusBadRequest_def StatusNotFound_def StatusConflict_def StatusInternalServerError_def
  FormatBool_def Obligation_zero_def Let_def

lemma UpdateObligation_fields_text_rejected:
  assumes "OptionalData.Value (ObligationPATCHRequestJSONSchema.Text updates) \<noteq> ''''"
    and "\<not> TextUpdatable old"
    and "OptionalData.Value (ObligationPATCHRequestJSONSchema.Text updates) \<noteq> Text old"
  shows "UpdateObligation_fields env old updates =
           Inl (LicenseError StatusBadRequest ''Can not update obligation text'' ''invalid request'')"
  using assms by (simp add: UpdateObligation_fields_def Let_def)

lemma UpdateObligation_fields_text_passes:
  assumes "\<not> (OptionalData.Value (ObligationPATCHRequestJSONSchema.Text updates) \<noteq> '''' \<and>
              \<not> TextUpdatable old \<and>
              OptionalData.Value (ObligationPATCHRequestJSONSchema.Text updates) \<noteq> Text old)"
  shows "UpdateObligation_fields env old updates \<noteq>
           Inl (LicenseError StatusBadRequest ''Can not update obligation text'' ''invalid request'')"
proof -
  let ?ty = "ObligationPATCHRequestJSONSchema.Type updates"
  let ?cl = "ObligationPATCHRequestJSONSchema.Classification updates"
  show ?thesis
  proof (cases "OptionalData.IsNotUndefined ?ty \<and> OptionalData.Value ?ty = ''''")
    case True
    then show ?thesis
      unfolding UpdateObligation_fields_def Let_def if_not_P [OF assms] by simp
  next
    case c2: False
    show ?thesis
    proof (cases "OptionalData.IsNotUndefined ?cl \<and> OptionalData.Value ?cl = ''''")
      case True
      then show ?thesis
        unfolding UpdateObligation_fields_def Let_def if_not_P [OF assms] if_not_P [OF c2]
        by simp
    next
      case c3: False
      show ?thesis
        unfolding UpdateObligation_fields_def Let_def if_not_P [OF assms] if_not_P [OF c2]
          if_not_P [OF c3]
        by simp
    qed
  qed
qed

lemma UpdateObligation_outcome:
  "snd (UpdateObligation env tp bound db) = db \<or>
   (\<exists>new. fst (UpdateObligation env tp bound db) = Inr new)"
proof (cases "find (\<lambda>row. Topic row = tp) (obligations db)")
  case None
  then show ?thesis by (simp add: UpdateObligation_def)
next
  case cur: (Some old)
  show ?thesis
  proof (cases bound)
    case (Inl err)
    then show ?thesis by (simp add: UpdateObligation_def cur)
  next
    case b: (Inr updates)
    show ?thesis
    proof (cases "UpdateObligation_fields env old updates")
      case (Inl er)
      then show ?thesis by (simp add: UpdateObligation_def cur b)
    next
      case f: (Inr m)
      show ?thesis
        by (cases "m = Map.empty")
          (auto simp: UpdateObligation_def cur b f Let_def split: option.splits if_splits)
    qed
  qed
qed

lemma UpdateObligation_failure:
  assumes "fst (UpdateObligation env tp bound db) = Inl e"
  shows "snd (UpdateObligation env tp bound db) = db"
  using assms UpdateObligation_outcome [of env tp bound db] by auto

lemma UpdateObligation_failure_cases:
  assumes "fst (UpdateObligation env tp (Inr updates) db) = Inl e"
  shows "(\<exists>old. find (\<lambda>row. Topic row = tp) (obligations db) = Some old \<and>
            UpdateObligation_fields env old updates = Inl e) \<or>
         (\<exists>msg err. e = LicenseError StatusNotFound msg err) \<or>
         (\<exists>msg err. e = LicenseError StatusInternalServerError msg err)"
proof (cases "find (\<lambda>row. Topic row = tp) (obligations db)")
  case None
  then show ?thesis using assms by (auto simp: UpdateObligation_def)
next
  case cur: (Some old)
  show ?thesis
  proof (cases "UpdateObligation_fields env old updates")
    case (Inl er)
    then show ?thesis using assms by (simp add: UpdateObligation_def cur)
  next
    case f: (Inr m)
    show ?thesis
      using assms
      by (cases "m = Map.empty")
        (auto simp: UpdateObligation_def cur f Let_def split: option.splits if_splits)
  qed
qed

lemma example_current_row:
  "find (\<lambda>row. Topic row = ''T1'') (obligations example_db) = Some example_row"
  "find (\<lambda>row. Topic row = ''T1'') (obligations example_db_updatable)
     = Some (example_row\<lparr>TextUpdatable := True\<rparr>)"
  by (simp_all add: example_db_def example_db_updatable_def example_row_def)

lemmas request_defs = empty_request_def OptionalData_present_def


lemma ShouldBindJSON_PATCH_text:
  "ShouldBindJSON_PATCH [''text'' \<mapsto> JString s] =
     Inr (empty_request\<lparr>ObligationPATCHRequestJSONSchema.Text :=
            OptionalData_present (JString s) s\<rparr>)"
  by (simp add: model_defs request_defs)

lemma ShouldBindJSON_PATCH_empty: "ShouldBindJSON_PATCH Map.empty = Inr empty_request"
  by (simp add: model_defs request_defs)

lemma ShouldBindJSON_PATCH_classification:
  "ShouldBindJSON_PATCH [''classification'' \<mapsto> JString s] =
     Inr (empty_request\<lparr>ObligationPATCHRequestJSONSchema.Classification :=
            OptionalData_present (JString s) s\<rparr>)"
  by (simp add: model_defs request_defs)

lemma ShouldBindJSON_PATCH_active:
  "ShouldBindJSON_PATCH [''active'' \<mapsto> JBool b] =
     Inr (empty_request\<lparr>ObligationPATCHRequestJSONSchema.Active :=
            OptionalData_present (JBool b) b\<rparr>)"
  by (simp add: model_defs request_defs)

lemma example_bodies_identical:
  "body_identical
     (empty_request\<lparr>ObligationPATCHRequestJSONSchema.Text :=
        OptionalData_present (JString ''hello'') ''hello''\<rparr>) example_row"
  "body_identical empty_request example_row"
  by (simp_all add: body_identical_def request_defs example_row_def OptionalData_zero_def
        OptionalNullableData_zero_def)

text \<open>
  What the handler does guarantee about the audit: a record is added exactly when a
  tracked field differs between the snapshot and the row the handler holds as returned.
\<close>

lemma UpdateObligation_audit_iff_returned_row_differs:
  assumes "find (\<lambda>row. Topic row = tp) (obligations db) = Some old"
    and "fst (UpdateObligation env tp bound db) = Inr new"
  shows "audits (snd (UpdateObligation env tp bound db)) \<noteq> audits db
           \<longleftrightarrow> tracked_fields_differ old new"
proof -
  from UpdateObligation_success [OF assms] obtain user :: User where
    a: "audits (snd (UpdateObligation env tp bound db)) =
       (if UpdateObligation_changes old new \<noteq> []
        then audits db @
             [\<lparr>UserId = User.Id user, TypeId = Id new, Timestamp = now env,
               Audit.Type = ''Obligation'',
               ChangeLogs = UpdateObligation_changes old new\<rparr>]
        else audits db)"
    by blast
  show ?thesis
    unfolding a by (simp add: UpdateObligation_changes_nonempty)
qed

lemma UpdateObligation_changes_Classification_entry:
  assumes "Classification old \<noteq> Classification new"
  shows "\<lparr>Field = ''Classification'', OldValue = Some (FormatBool (Modifications old)),
          UpdatedValue = Some (FormatBool (Modifications new))\<rparr>
           \<in> set (UpdateObligation_changes old new)"
  unfolding UpdateObligation_changes_concat using assms by simp


lemma CreateObligation_match_writes_nothing:
  assumes "find (\<lambda>row. Topic row = ObligationPOSTRequestJSONSchema.Topic input \<or>
                        Md5 row = md5hex env (ObligationPOSTRequestJSONSchema.Text input))
             (obligations db) = Some row"
  shows "snd (CreateObligation env (Inr input) db) = db"
    and "10 \<le> length (Text row) \<Longrightarrow> ConflictError (fst (CreateObligation env (Inr input) db))"
    and "length (Text row) < 10 \<Longrightarrow>
           fst (CreateObligation env (Inr input) db) = Inl (Panic ''slice bounds out of range'')"
  using assms
  by (simp_all add: CreateObligation_def FirstOrCreate_def Let_def)

section \<open>Properties of the handlers\<close>

text \<open>
  Claim C1 asks that the change log entry for the classification record the old and the
  new classification. The handler fills the entry from the modifications flag instead:
  changing the classification of the example row from \<open>''green''\<close> to \<open>''red''\<close>
  persists the entry with the prior value \<open>''false''\<close> and the new value
  \<open>''false''\<close>.
\<close>

theorem UpdateObligation_classification_entry_renders_modifications:
  "Classification example_row = ''green'' \<and> Modifications example_row = False \<and>
   UpdateObligation example_env ''T1''
     (Inr (empty_request\<lparr>ObligationPATCHRequestJSONSchema.Classification :=
        OptionalData_present (JString ''red'') ''red''\<rparr>)) example_db
     = (Inr (example_row\<lparr>Classification := ''red''\<rparr>),
        example_db\<lparr>obligations := [example_row\<lparr>Classification := ''red''\<rparr>],
          audits := [\<lparr>UserId = 7, TypeId = 1, Timestamp = 0, Audit.Type = ''Obligation'',
             ChangeLogs = [\<lparr>Field = ''Classification'', OldValue = Some ''false'',
                UpdatedValue = Some ''false''\<rparr>]\<rparr>]\<rparr>)"
  by (simp add: model_defs request_defs)

text \<open>
  Claim C2, as amended. Take a partial update whose text value is not empty and differs
  from the text of the current row. When the row's text-updatable flag is false the
  update fails with the validation error "Can not update obligation text" and the
  database is the one before the call: the row is unchanged and no audit record is
  written. When the flag is true the text check does not reject the request, and every
  update that then succeeds returns and stores the row with the new text and with the
  digest computed from the new text.
\<close>

theorem UpdateObligation_text_policy:
  assumes cur: "find (\<lambda>row. Topic row = tp) (obligations db) = Some old"
    and ne: "OptionalData.Value (ObligationPATCHRequestJSONSchema.Text updates) \<noteq> ''''"
    and diff: "OptionalData.Value (ObligationPATCHRequestJSONSchema.Text updates) \<noteq> Text old"
  shows "(\<not> TextUpdatable old \<longrightarrow>
            ValidationError (fst (UpdateObligation env tp (Inr updates) db)) \<and>
            UpdateObligation env tp (Inr updates) db =
              (Inl (LicenseError StatusBadRequest ''Can not update obligation text''
                      ''invalid request''), db)) \<and>
         (TextUpdatable old \<longrightarrow>
            fst (UpdateObligation env tp (Inr updates) db) \<noteq>
              Inl (LicenseError StatusBadRequest ''Can not update obligation text''
                     ''invalid request'') \<and>
            (fst (UpdateObligation env tp (Inr updates) db) = Inr new \<longrightarrow>
               Text new = OptionalData.Value (ObligationPATCHRequestJSONSchema.Text updates) \<and>
               Md5 new = md5hex env
                           (OptionalData.Value (ObligationPATCHRequestJSONSchema.Text updates)) \<and>
               new \<in> set (obligations (snd (UpdateObligation env tp (Inr updates) db)))))"
proof (intro conjI impI)
  assume nu: "\<not> TextUpdatable old"
  show eq: "UpdateObligation env tp (Inr updates) db =
              (Inl (LicenseError StatusBadRequest ''Can not update obligation text''
                      ''invalid request''), db)"
    by (simp add: UpdateObligation_def cur UpdateObligation_fields_text_rejected [OF ne nu diff])
  show "ValidationError (fst (UpdateObligation env tp (Inr updates) db))"
    by (simp add: eq)
next
  assume u: "TextUpdatable old"
  show "fst (UpdateObligation env tp (Inr updates) db) \<noteq>
          Inl (LicenseError StatusBadRequest ''Can not update obligation text''
                 ''invalid request'')"
  proof
    assume "fst (UpdateObligation env tp (Inr updates) db) =
              Inl (LicenseError StatusBadRequest ''Can not update obligation text''
                     ''invalid request'')"
    from UpdateObligation_failure_cases [OF this] cur
    have "UpdateObligation_fields env old updates =
            Inl (LicenseError StatusBadRequest ''Can not update obligation text''
                   ''invalid request'')"
      by (auto simp: StatusBadRequest_def StatusNotFound_def StatusInternalServerError_def)
    moreover have "UpdateObligation_fields env old updates \<noteq>
            Inl (LicenseError StatusBadRequest ''Can not update obligation text''
                   ''invalid request'')"
      by (rule UpdateObligation_fields_text_passes) (simp add: u)
    ultimately show False by simp
  qed
next
  assume u: "TextUpdatable old"
    and ok: "fst (UpdateObligation env tp (Inr updates) db) = Inr new"
  let ?U = "UpdateObligation env tp (Inr updates) db"
  from UpdateObligation_success [OF cur ok] obtain m where
    f: "UpdateObligation_fields env old updates = Inr m"
    and n0: "new = (if m = Map.empty then Obligation_zero\<lparr>Id := Id old\<rparr> else Updates m old)"
    and rows0: "obligations (snd ?U) =
       (if m = Map.empty then obligations db
        else map (\<lambda>row. if Id row = Id old then Updates m row else row) (obligations db))"
    by auto
  have sent: "m \<noteq> Map.empty"
    by (rule UpdateObligation_fields_text_entry [OF f u ne diff])
  have n: "new = Updates m old"
    using n0 sent by simp
  have rows: "obligations (snd ?U) =
       map (\<lambda>row. if Id row = Id old then Updates m row else row) (obligations db)"
    using rows0 sent by simp
  show "Text new = OptionalData.Value (ObligationPATCHRequestJSONSchema.Text updates)"
    by (simp add: n UpdateObligation_fields_Updates [OF f] u ne diff)
  show "Md5 new = md5hex env (OptionalData.Value (ObligationPATCHRequestJSONSchema.Text updates))"
    by (simp add: n UpdateObligation_fields_Updates [OF f] u ne diff)
  have mem: "old \<in> set (obligations db)"
    using cur by (auto simp: find_Some_iff)
  show "new \<in> set (obligations (snd ?U))"
    unfolding rows set_map n by (rule image_eqI [OF _ mem]) simp
qed

theorem UpdateObligation_text_policy_witness:
  "find (\<lambda>row. Topic row = ''T1'') (obligations example_db) = Some example_row \<and>
   OptionalData.Value (ObligationPATCHRequestJSONSchema.Text
     (empty_request\<lparr>ObligationPATCHRequestJSONSchema.Text :=
        OptionalData_present (JString ''changed'') ''changed''\<rparr>)) \<noteq> '''' \<and>
   OptionalData.Value (ObligationPATCHRequestJSONSchema.Text
     (empty_request\<lparr>ObligationPATCHRequestJSONSchema.Text :=
        OptionalData_present (JString ''changed'') ''changed''\<rparr>)) \<noteq> Text example_row \<and>
   \<not> TextUpdatable example_row \<and>
   ValidationError (fst (UpdateObligation example_env ''T1''
     (Inr (empty_request\<lparr>ObligationPATCHRequestJSONSchema.Text :=
        OptionalData_present (JString ''changed'') ''changed''\<rparr>)) example_db)) \<and>
   snd (UpdateObligation example_env ''T1''
     (Inr (empty_request\<lparr>ObligationPATCHRequestJSONSchema.Text :=
        OptionalData_present (JString ''changed'') ''changed''\<rparr>)) example_db) = example_db \<and>
   TextUpdatable (example_row\<lparr>TextUpdatable := True\<rparr>) \<and>
   fst (UpdateObligation example_env ''T1''
     (Inr (empty_request\<lparr>ObligationPATCHRequestJSONSchema.Text :=
        OptionalData_present (JString ''changed'') ''changed''\<rparr>)) example_db_updatable)
     = Inr (example_row\<lparr>TextUpdatable := True, Text := ''changed'', Md5 := ''md5:changed''\<rparr>) \<and>
   md5hex example_env ''changed'' = ''md5:changed'' \<and>
   example_row\<lparr>TextUpdatable := True, Text := ''changed'', Md5 := ''md5:changed''\<rparr>
     \<in> set (obligations (snd (UpdateObligation example_env ''T1''
     (Inr (empty_request\<lparr>ObligationPATCHRequestJSONSchema.Text :=
        OptionalData_present (JString ''changed'') ''changed''\<rparr>)) example_db_updatable)))"
proof -
  let ?req = "empty_request\<lparr>ObligationPATCHRequestJSONSchema.Text :=
        OptionalData_present (JString ''changed'') ''changed''\<rparr>"
  let ?new = "example_row\<lparr>TextUpdatable := True, Text := ''changed'', Md5 := ''md5:changed''\<rparr>"
  have ne: "OptionalData.Value (ObligationPATCHRequestJSONSchema.Text ?req) \<noteq> ''''"
    by (simp add: request_defs)
  have d1: "OptionalData.Value (ObligationPATCHRequestJSONSchema.Text ?req) \<noteq> Text example_row"
    by (simp add: request_defs example_row_def)
  have d2: "OptionalData.Value (ObligationPATCHRequestJSONSchema.Text ?req)
              \<noteq> Text (example_row\<lparr>TextUpdatable := True\<rparr>)"
    by (simp add: request_defs example_row_def)
  have ok: "fst (UpdateObligation example_env ''T1'' (Inr ?req) example_db_updatable) = Inr ?new"
    by (simp add: model_defs request_defs)
  have nu: "\<not> TextUpdatable example_row"
    by (simp add: example_row_def)
  have md: "md5hex example_env ''changed'' = ''md5:changed''"
    by (simp add: example_env_def)
  have u: "TextUpdatable (example_row\<lparr>TextUpdatable := True\<rparr>)"
    by simp
  note rejected = UpdateObligation_text_policy [OF example_current_row(1) ne d1,
      where env = example_env, THEN conjunct1, rule_format, OF nu]
  note accepted = UpdateObligation_text_policy [OF example_current_row(2) ne d2,
      where env = example_env and new = ?new, THEN conjunct2, rule_format, OF u,
      THEN conjunct2, rule_format, OF ok]
  have r1: "ValidationError (fst (UpdateObligation example_env ''T1'' (Inr ?req) example_db))"
    using rejected by (rule conjunct1)
  have r2: "snd (UpdateObligation example_env ''T1'' (Inr ?req) example_db) = example_db"
    using rejected [THEN conjunct2] by (rule arg_cong [where f = snd, THEN trans]) simp
  have a3: "?new \<in> set (obligations
              (snd (UpdateObligation example_env ''T1'' (Inr ?req) example_db_updatable)))"
    using accepted by (elim conjE)
  show ?thesis
    using example_current_row(1) ne d1 nu r1 r2 u ok md a3 by (intro conjI)
qed

text \<open>
  The claim as stated fails for a text that is provided and empty. On the example row,
  whose text is \<open>''hello''\<close> and is not updatable, the request that provides the text
  \<open>''''\<close> and clears the active flag is not rejected: it succeeds, the row is written
  with the flag cleared and an audit record is persisted.
\<close>

theorem UpdateObligation_text_policy_counterexample:
  "obligations example_db = [example_row] \<and> Topic example_row = ''T1'' \<and>
   OptionalData.IsNotUndefined (ObligationPATCHRequestJSONSchema.Text
     (empty_request\<lparr>
        ObligationPATCHRequestJSONSchema.Text := OptionalData_present (JString '''') '''',
        ObligationPATCHRequestJSONSchema.Active := OptionalData_present (JBool False) False\<rparr>)) \<and>
   OptionalData.Value (ObligationPATCHRequestJSONSchema.Text
     (empty_request\<lparr>
        ObligationPATCHRequestJSONSchema.Text := OptionalData_present (JString '''') '''',
        ObligationPATCHRequestJSONSchema.Active := OptionalData_present (JBool False) False\<rparr>))
     \<noteq> Text example_row \<and>
   \<not> TextUpdatable example_row \<and>
   UpdateObligation example_env ''T1''
     (Inr (empty_request\<lparr>
        ObligationPATCHRequestJSONSchema.Text := OptionalData_present (JString '''') '''',
        ObligationPATCHRequestJSONSchema.Active := OptionalData_present (JBool False) False\<rparr>))
     example_db
     = (Inr (example_row\<lparr>Active := False\<rparr>),
        example_db\<lparr>obligations := [example_row\<lparr>Active := False\<rparr>],
          audits := [\<lparr>UserId = 7, TypeId = 1, Timestamp = 0, Audit.Type = ''Obligation'',
             ChangeLogs = [\<lparr>Field = ''Active'', OldValue = Some ''true'',
                UpdatedValue = Some ''false''\<rparr>]\<rparr>]\<rparr>) \<and>
   \<not> ValidationError (fst (UpdateObligation example_env ''T1''
     (Inr (empty_request\<lparr>
        ObligationPATCHRequestJSONSchema.Text := OptionalData_present (JString '''') '''',
        ObligationPATCHRequestJSONSchema.Active := OptionalData_present (JBool False) False\<rparr>))
     example_db))"
  by (simp add: model_defs request_defs)

text \<open>
  Claim C5 asks that a create request whose topic or digest matches an existing row fail
  with a conflict error. When the matching row's text has fewer than ten bytes the
  handler panics while it builds the conflict response: a request with the text
  \<open>''hello''\<close> against the example row, whose text is the same, ends in the panic and
  not in a conflict error. No row is inserted.
\<close>

theorem CreateObligation_short_text_conflict_panics:
  "obligations example_db = [example_row] \<and> Text example_row = ''hello'' \<and>
   ObligationPOSTRequestJSONSchema.Text example_create_request = ''hello'' \<and>
   Md5 example_row = md5hex example_env ''hello'' \<and>
   CreateObligation example_env (Inr example_create_request) example_db
     = (Inl (Panic ''slice bounds out of range''), example_db) \<and>
   \<not> ConflictError (fst (CreateObligation example_env (Inr example_create_request) example_db))"
  by (simp add: CreateObligation_def FirstOrCreate_def Let_def example_env_def example_row_def
        example_db_def example_create_request_def)

text \<open>
  Claim C6 asks that an audit record be persisted exactly when a tracked field differs
  between the snapshot and the row after the update, and that a body identical to the
  current state write none. The handler fails both for a body that leaves the update map
  empty. The request that provides only the text the example row already has is
  identical to the current state and leaves every stored row as it was; the handler
  answers with the zero row that carries only the identifier and persists an audit record
  of five entries, each from a field of the stored row to the zero value. The body
  \<^verbatim>\<open>{}\<close> has the same outcome.
\<close>

theorem UpdateObligation_identical_text_writes_audit:
  "OptionalData.Value (ObligationPATCHRequestJSONSchema.Text
     (empty_request\<lparr>ObligationPATCHRequestJSONSchema.Text :=
        OptionalData_present (JString ''hello'') ''hello''\<rparr>)) = Text example_row \<and>
   UpdateObligation example_env ''T1''
     (Inr (empty_request\<lparr>ObligationPATCHRequestJSONSchema.Text :=
        OptionalData_present (JString ''hello'') ''hello''\<rparr>)) example_db
     = (Inr (Obligation_zero\<lparr>Id := 1\<rparr>),
        example_db\<lparr>audits :=
          [\<lparr>UserId = 7, TypeId = 1, Timestamp = 0, Audit.Type = ''Obligation'',
            ChangeLogs =
              [\<lparr>Field = ''Topic'', OldValue = Some ''T1'', UpdatedValue = Some ''''\<rparr>,
               \<lparr>Field = ''Type'', OldValue = Some ''obligation'', UpdatedValue = Some ''''\<rparr>,
               \<lparr>Field = ''Text'', OldValue = Some ''hello'', UpdatedValue = Some ''''\<rparr>,
               \<lparr>Field = ''Classification'', OldValue = Some ''false'',
                 UpdatedValue = Some ''false''\<rparr>,
               \<lparr>Field = ''Active'', OldValue = Some ''true'',
                 UpdatedValue = Some ''false''\<rparr>]\<rparr>]\<rparr>) \<and>
   obligations (snd (UpdateObligation example_env ''T1''
     (Inr (empty_request\<lparr>ObligationPATCHRequestJSONSchema.Text :=
        OptionalData_present (JString ''hello'') ''hello''\<rparr>)) example_db))
     = obligations example_db \<and>
   audits (snd (UpdateObligation example_env ''T1''
     (Inr (empty_request\<lparr>ObligationPATCHRequestJSONSchema.Text :=
        OptionalData_present (JString ''hello'') ''hello''\<rparr>)) example_db))
     \<noteq> audits example_db \<and>
   UpdateObligation example_env ''T1'' (Inr empty_request) example_db
     = UpdateObligation example_env ''T1''
         (Inr (empty_request\<lparr>ObligationPATCHRequestJSONSchema.Text :=
            OptionalData_present (JString ''hello'') ''hello''\<rparr>)) example_db"
proof -
  have same:
    "OptionalData.Value (ObligationPATCHRequestJSONSchema.Text
       (empty_request\<lparr>ObligationPATCHRequestJSONSchema.Text :=
          OptionalData_present (JString ''hello'') ''hello''\<rparr>)) = Text example_row"
    by (simp add: request_defs example_row_def)
  have run:
    "UpdateObligation example_env ''T1''
       (Inr (empty_request\<lparr>ObligationPATCHRequestJSONSchema.Text :=
          OptionalData_present (JString ''hello'') ''hello''\<rparr>)) example_db
       = (Inr (Obligation_zero\<lparr>Id := 1\<rparr>),
          example_db\<lparr>audits :=
            [\<lparr>UserId = 7, TypeId = 1, Timestamp = 0, Audit.Type = ''Obligation'',
              ChangeLogs =
                [\<lparr>Field = ''Topic'', OldValue = Some ''T1'', UpdatedValue = Some ''''\<rparr>,
                 \<lparr>Field = ''Type'', OldValue = Some ''obligation'', UpdatedValue = Some ''''\<rparr>,
                 \<lparr>Field = ''Text'', OldValue = Some ''hello'', UpdatedValue = Some ''''\<rparr>,
                 \<lparr>Field = ''Classification'', OldValue = Some ''false'',
                   UpdatedValue = Some ''false''\<rparr>,
                 \<lparr>Field = ''Active'', OldValue = Some ''true'',
                   UpdatedValue = Some ''false''\<rparr>]\<rparr>]\<rparr>)"
    by (simp add: model_defs request_defs)
  have run_empty:
    "UpdateObligation example_env ''T1'' (Inr empty_request) example_db
       = UpdateObligation example_env ''T1''
           (Inr (empty_request\<lparr>ObligationPATCHRequestJSONSchema.Text :=
              OptionalData_present (JString ''hello'') ''hello''\<rparr>)) example_db"
    unfolding run by (simp add: model_defs request_defs)
  have rows:
    "obligations (snd (UpdateObligation example_env ''T1''
       (Inr (empty_request\<lparr>ObligationPATCHRequestJSONSchema.Text :=
          OptionalData_present (JString ''hello'') ''hello''\<rparr>)) example_db))
       = obligations example_db"
    unfolding run by simp
  have written:
    "audits (snd (UpdateObligation example_env ''T1''
       (Inr (empty_request\<lparr>ObligationPATCHRequestJSONSchema.Text :=
          OptionalData_present (JString ''hello'') ''hello''\<rparr>)) example_db))
       \<noteq> audits example_db"
    unfolding run by (simp add: example_db_def)
  show ?thesis
    using same run rows written run_empty by (intro conjI)
qed

text \<open>
  Claim C7. The audit record that a successful update persists has one change log entry
  for each tracked field that differs between the snapshot taken before the update and
  the row returned after it, and no other entry; the entries stand in the fixed order
  topic, type, text, classification, modifications, comment, active, text-updatable. So
  when several fields change at once their entries appear in that order.
\<close>

theorem UpdateObligation_audit_order:
  assumes cur: "find (\<lambda>row. Topic row = tp) (obligations db) = Some old"
    and ok: "fst (UpdateObligation env tp bound db) = Inr new"
    and written: "audits (snd (UpdateObligation env tp bound db)) \<noteq> audits db"
  shows "map Field (ChangeLogs (last (audits (snd (UpdateObligation env tp bound db)))))
           = filter (field_differs old new) tracked_field_order \<and>
         subseq (map Field (ChangeLogs (last (audits (snd (UpdateObligation env tp bound db))))))
           tracked_field_order"
proof -
  let ?U = "UpdateObligation env tp bound db"
  from UpdateObligation_success [OF cur ok] obtain user :: User where
    a: "audits (snd ?U) =
       (if UpdateObligation_changes old new \<noteq> []
        then audits db @
             [\<lparr>UserId = User.Id user, TypeId = Id new, Timestamp = now env,
               Audit.Type = ''Obligation'',
               ChangeLogs = UpdateObligation_changes old new\<rparr>]
        else audits db)"
    by blast
  from written a have log: "ChangeLogs (last (audits (snd ?U))) = UpdateObligation_changes old new"
    by (simp split: if_splits)
  show ?thesis
    unfolding log
    by (rule conjI [OF UpdateObligation_changes_fields UpdateObligation_changes_order])
qed

theorem UpdateObligation_audit_order_witness:
  "find (\<lambda>row. Topic row = ''T1'') (obligations example_db) = Some example_row \<and>
   fst (UpdateObligation example_env ''T1''
     (Inr (empty_request\<lparr>
        ObligationPATCHRequestJSONSchema.Type := OptionalData_present (JString ''right'') ''right'',
        ObligationPATCHRequestJSONSchema.Active := OptionalData_present (JBool False) False,
        ObligationPATCHRequestJSONSchema.TextUpdatable :=
          OptionalData_present (JBool True) True\<rparr>)) example_db)
     = Inr (example_row\<lparr>Type := ''right'', Active := False, TextUpdatable := True\<rparr>) \<and>
   audits (snd (UpdateObligation example_env ''T1''
     (Inr (empty_request\<lparr>
        ObligationPATCHRequestJSONSchema.Type := OptionalData_present (JString ''right'') ''right'',
        ObligationPATCHRequestJSONSchema.Active := OptionalData_present (JBool False) False,
        ObligationPATCHRequestJSONSchema.TextUpdatable :=
          OptionalData_present (JBool True) True\<rparr>)) example_db)) \<noteq> audits example_db \<and>
   filter (field_differs example_row
             (example_row\<lparr>Type := ''right'', Active := False, TextUpdatable := True\<rparr>))
     tracked_field_order = [''Type'', ''Active'', ''TextUpdatable''] \<and>
   map Field (ChangeLogs (last (audits (snd (UpdateObligation example_env ''T1''
     (Inr (empty_request\<lparr>
        ObligationPATCHRequestJSONSchema.Type := OptionalData_present (JString ''right'') ''right'',
        ObligationPATCHRequestJSONSchema.Active := OptionalData_present (JBool False) False,
        ObligationPATCHRequestJSONSchema.TextUpdatable :=
          OptionalData_present (JBool True) True\<rparr>)) example_db)))))
     = [''Type'', ''Active'', ''TextUpdatable'']"
proof -
  let ?req = "empty_request\<lparr>
        ObligationPATCHRequestJSONSchema.Type := OptionalData_present (JString ''right'') ''right'',
        ObligationPATCHRequestJSONSchema.Active := OptionalData_present (JBool False) False,
        ObligationPATCHRequestJSONSchema.TextUpdatable :=
          OptionalData_present (JBool True) True\<rparr>"
  let ?new = "example_row\<lparr>Type := ''right'', Active := False, TextUpdatable := True\<rparr>"
  have ok: "fst (UpdateObligation example_env ''T1'' (Inr ?req) example_db) = Inr ?new"
    by (simp add: model_defs request_defs)
  have written: "audits (snd (UpdateObligation example_env ''T1'' (Inr ?req) example_db))
                   \<noteq> audits example_db"
    by (simp add: model_defs request_defs)
  have differing: "filter (field_differs example_row ?new) tracked_field_order
                     = [''Type'', ''Active'', ''TextUpdatable'']"
    by (simp add: tracked_field_order_def field_differs_def example_row_def)
  note order = UpdateObligation_audit_order [OF example_current_row(1) ok written,
      THEN conjunct1]
  have fields: "map Field (ChangeLogs (last (audits (snd
                   (UpdateObligation example_env ''T1'' (Inr ?req) example_db)))))
                 = [''Type'', ''Active'', ''TextUpdatable'']"
    using order differing by (rule trans)
  show ?thesis
    using example_current_row(1) ok written differing fields by (intro conjI)
qed

text \<open>
  Claim C9. A partial update whose text value is the empty string never fails with the
  validation error of the text, and changes neither the text nor the digest of any
  stored row, whatever the row's text-updatable flag and whatever its current text.
\<close>

theorem UpdateObligation_empty_text_ignored:
  assumes empty: "OptionalData.Value (ObligationPATCHRequestJSONSchema.Text updates) = ''''"
  shows "fst (UpdateObligation env tp (Inr updates) db) \<noteq>
           Inl (LicenseError StatusBadRequest ''Can not update obligation text''
                  ''invalid request'') \<and>
         map Text (obligations (snd (UpdateObligation env tp (Inr updates) db)))
           = map Text (obligations db) \<and>
         map Md5 (obligations (snd (UpdateObligation env tp (Inr updates) db)))
           = map Md5 (obligations db)"
proof -
  let ?U = "UpdateObligation env tp (Inr updates) db"
  let ?err = "LicenseError StatusBadRequest ''Can not update obligation text'' ''invalid request''"
  have passes: "UpdateObligation_fields env old updates \<noteq> Inl ?err" for old
    by (rule UpdateObligation_fields_text_passes) (simp add: empty)
  have no_err: "fst ?U \<noteq> Inl ?err"
  proof
    assume "fst ?U = Inl ?err"
    from UpdateObligation_failure_cases [OF this] passes show False
      by (auto simp: StatusBadRequest_def StatusNotFound_def StatusInternalServerError_def)
  qed
  have rows: "map Text (obligations (snd ?U)) = map Text (obligations db) \<and>
              map Md5 (obligations (snd ?U)) = map Md5 (obligations db)"
  proof (cases "fst ?U")
    case (Inl e)
    then show ?thesis by (simp add: UpdateObligation_failure)
  next
    case (Inr new)
    from UpdateObligation_success_row [OF Inr] obtain old where
      cur: "find (\<lambda>row. Topic row = tp) (obligations db) = Some old"
      by blast
    from UpdateObligation_success [OF cur Inr] obtain m where
      f: "UpdateObligation_fields env old updates = Inr m"
      and r: "obligations (snd ?U) =
         (if m = Map.empty then obligations db
          else map (\<lambda>row. if Id row = Id old then Updates m row else row) (obligations db))"
      by auto
    have "Text (Updates m row) = Text row" "Md5 (Updates m row) = Md5 row" for row
      by (simp_all add: UpdateObligation_fields_Updates [OF f] empty)
    then show ?thesis
      unfolding r by (simp add: comp_def if_distrib [of Text] if_distrib [of Md5])
  qed
  from no_err rows show ?thesis by (rule conjI)
qed

theorem UpdateObligation_empty_text_ignored_witness:
  "OptionalData.Value (ObligationPATCHRequestJSONSchema.Text
     (empty_request\<lparr>ObligationPATCHRequestJSONSchema.Text :=
        OptionalData_present (JString '''') ''''\<rparr>)) = '''' \<and>
   fst (UpdateObligation example_env ''T1''
     (Inr (empty_request\<lparr>ObligationPATCHRequestJSONSchema.Text :=
        OptionalData_present (JString '''') ''''\<rparr>)) example_db_updatable) \<noteq>
     Inl (LicenseError StatusBadRequest ''Can not update obligation text'' ''invalid request'') \<and>
   map Text (obligations (snd (UpdateObligation example_env ''T1''
     (Inr (empty_request\<lparr>ObligationPATCHRequestJSONSchema.Text :=
        OptionalData_present (JString '''') ''''\<rparr>)) example_db_updatable)))
     = map Text (obligations example_db_updatable) \<and>
   map Md5 (obligations (snd (UpdateObligation example_env ''T1''
     (Inr (empty_request\<lparr>ObligationPATCHRequestJSONSchema.Text :=
        OptionalData_present (JString '''') ''''\<rparr>)) example_db_updatable)))
     = map Md5 (obligations example_db_updatable)"
proof -
  have empty: "OptionalData.Value (ObligationPATCHRequestJSONSchema.Text
     (empty_request\<lparr>ObligationPATCHRequestJSONSchema.Text :=
        OptionalData_present (JString '''') ''''\<rparr>)) = ''''"
    by (simp add: request_defs)
  from empty UpdateObligation_empty_text_ignored [OF empty] show ?thesis
    by (rule conjI)
qed

text \<open>
  Claim C10. Deactivating a known topic succeeds and leaves the audit table as it was:
  no audit record, and with it no change log entry, is created.
\<close>

theorem DeleteObligation_writes_no_audit:
  assumes known: "tp \<in> Topic ` set (obligations db)"
  shows "fst (DeleteObligation tp db) = Inr () \<and>
         audits (snd (DeleteObligation tp db)) = audits db"
proof -
  from known have "find (\<lambda>row. Topic row = tp) (obligations db) \<noteq> None"
    by (auto simp: find_None_iff)
  then obtain loaded where "find (\<lambda>row. Topic row = tp) (obligations db) = Some loaded"
    by blast
  then show ?thesis
    by (simp add: DeleteObligation_def Let_def)
qed

theorem DeleteObligation_writes_no_audit_witness:
  "''T1'' \<in> Topic ` set (obligations example_db) \<and>
   fst (DeleteObligation ''T1'' example_db) = Inr () \<and>
   audits (snd (DeleteObligation ''T1'' example_db)) = audits example_db"
proof -
  have known: "''T1'' \<in> Topic ` set (obligations example_db)"
    by (simp add: example_db_def example_row_def)
  from known DeleteObligation_writes_no_audit [OF known] show ?thesis
    by (rule conjI)
qed

end
